theory Spec2Isabelle
  imports Main "HOL-Library.Word"
begin

section \<open>The resource handler (src/core/resource.ts)\<close>

text \<open>
  The handler is a JavaScript object driven by the event loop. The embedding keeps its
  private fields in a record and turns every asynchronous resumption point of the class
  into an explicit stimulus: the promise returned by the factory settles, a timer fires,
  the held resource emits an event, or a caller invokes a public method. One stimulus is
  processed until the microtask queue is empty again, which is how the runtime executes it.

  A private member \<open>__x\<close> of the class is written \<open>p_x\<close> here.

  What lies outside the class is kept abstract:
  \<^item> a resource is the identity of the object the factory produced (\<open>res\<close>);
  \<^item> an \<open>Error\<close> object is identified by its message (\<open>error\<close>);
  \<^item> the delays of the retry policy and of the reconnect loop are not measured, only
    the fact that a timer fired;
  \<^item> listeners registered by callers do not throw, and an \<open>error\<close> listener is present
    whenever the handler emits \<open>error\<close>.
\<close>

datatype ResourceStatus = Connecting | Connected | Error | Closing | Closed

datatype error =
    NotAvailable string  \<comment> \<open>\<open>new Error(`${name} is not available`)\<close>\<close>
  | IsClosed string      \<comment> \<open>\<open>new Error(`${name} is closed`)\<close>\<close>
  | Aborted              \<comment> \<open>the error inside \<open>new retry.AbortError(`Connection is aborted`)\<close>\<close>
  | TypeError string     \<comment> \<open>a \<open>TypeError\<close> whose message is none of \<open>p-retry\<close>'s network-error texts\<close>
  | NetworkTypeError string  \<comment> \<open>a \<open>TypeError\<close> whose message is one of those texts\<close>
  | Failure string       \<comment> \<open>any other error, raised by the factory, the resource or the broker\<close>

type_synonym res = nat

type_synonym bytes = "8 word list"

record ConsumeMessage =
  msg_routingKey :: string
  msg_content :: bytes

text \<open>
  The events the handler emits synchronously. \<open>EvRetry e k l\<close> is the \<open>retry\<close> event for
  the error \<open>e\<close> of attempt number \<open>k\<close> with \<open>l\<close> retries left. The \<open>status\<close> event is
  emitted on the next tick and is recorded apart, in \<open>status_events\<close>.
\<close>

datatype event =
    EvOpen
  | EvClose
  | EvError error
  | EvRetry error nat nat
  | EvForward string
  | EvMessage ConsumeMessage

text \<open>
  The field \<open>__resource\<close> holds a promise: undefined before the first \<open>__connect\<close>, the
  promise built by the \<open>n\<close>-th call of \<open>__connect\<close> (\<open>retry(...).then(...).catch(...)\<close>),
  or \<open>Promise.reject(new Error(`${name} is closed`))\<close>.
\<close>

datatype slot = Unset | Attempt nat | RejectedClosed

text \<open>
  One run of \<open>retry(...)\<close>: the factory promise of the current attempt is pending
  (\<open>InFlight\<close>), the run waits for its back-off timer (\<open>Backoff\<close>), or the promise built
  by \<open>__connect\<close> has settled; that promise never rejects, its \<open>catch\<close> resolves it to null.
\<close>

datatype phase = InFlight | Backoff | Settled "res option"

record retry_run =
  phase :: phase
  attemptNumber :: nat
  errors :: "error list"

text \<open>The result of awaiting a promise.\<close>

datatype 'a awaited = Pending nat | Fulfilled 'a | Rejected error

text \<open>
  The code that runs after an \<open>await this.__resource\<close> and changes the handler: the rest
  of \<open>close\<close>, and the rest of \<open>__setToClose\<close> (which waits through \<open>__attemptReconnect\<close>
  and \<open>connect\<close>).
\<close>

datatype cont = K_close | K_setToClose

datatype res_call = ResRemoveAllListeners res | ResCloser res | ResClose res

record ResourceHandlerOptions =
  name :: string
  closer :: bool
  retries :: nat
  eventBindings :: "string list"

record OptionsArg =
  arg_name :: string
  arg_closer :: bool
  arg_retries :: "nat option"
  arg_eventBindings :: "string list"

record handler =
  p_opts :: ResourceHandlerOptions
  p_resource :: slot
  p_err :: "error option"
  p_status :: ResourceStatus
  isReconnecting :: bool
  reconnectAttempts :: nat
  retry_runs :: "retry_run list"
  waiters :: "(nat \<times> cont) list"
  subscribed :: "res list"
  emitted :: "event list"
  status_events :: "ResourceStatus list"
  res_calls :: "res_call list"
  factory_calls :: nat
  listeners_removed :: bool

definition emit :: "event \<Rightarrow> handler \<Rightarrow> handler" where
  "emit e h = h\<lparr>emitted := emitted h @ [e]\<rparr>"

definition removeAllListeners :: "handler \<Rightarrow> handler" where
  "removeAllListeners h = h\<lparr>listeners_removed := True\<rparr>"

definition p_setStatus :: "ResourceStatus \<Rightarrow> handler \<Rightarrow> handler" where
  "p_setStatus nextStatus h =
     h\<lparr>p_status := nextStatus, status_events := status_events h @ [nextStatus]\<rparr>"

definition res_removeAllListeners :: "res \<Rightarrow> handler \<Rightarrow> handler" where
  "res_removeAllListeners r h =
     h\<lparr>subscribed := removeAll r (subscribed h),
       res_calls := res_calls h @ [ResRemoveAllListeners r]\<rparr>"

definition p_subscribe :: "res \<Rightarrow> handler \<Rightarrow> handler" where
  \<comment> \<open>\<open>res.once('error', ...)\<close>, \<open>res.once('close', ...)\<close> and the forwarded bindings\<close>
  "p_subscribe r h = h\<lparr>subscribed := subscribed h @ [r]\<rparr>"

definition await_resource :: "handler \<Rightarrow> res option awaited" where
  \<comment> \<open>\<open>await this.__resource\<close>\<close>
  "await_resource h =
     (case p_resource h of
        Unset \<Rightarrow> Fulfilled None
      | RejectedClosed \<Rightarrow> Rejected (IsClosed (name (p_opts h)))
      | Attempt c \<Rightarrow>
          (case phase (retry_runs h ! c) of
             Settled v \<Rightarrow> Fulfilled v
           | _ \<Rightarrow> Pending c))"

text \<open>
  \<open>__connect\<close>. \<open>retry\<close> makes the first attempt synchronously: the attempt function runs
  inside the call, one line after the status became \<open>Connecting\<close>, so its test for
  \<open>Closing\<close> is false and the factory is invoked.
\<close>

definition p_connect :: "bool \<Rightarrow> handler \<Rightarrow> handler" where
  "p_connect force h =
     (if \<not> force \<and>
         (p_status h = Connecting \<or> p_status h = Connected \<or>
          p_status h = Closing \<or> p_status h = Closed)
      then h
      else
        let h1 = p_setStatus Connecting h;
            h2 = h1\<lparr>p_err := None\<rparr>
        in h2\<lparr>p_resource := Attempt (length (retry_runs h2)),
              retry_runs := retry_runs h2 @ [\<lparr>phase = InFlight, attemptNumber = 1, errors = []\<rparr>],
              factory_calls := factory_calls h2 + 1\<rparr>)"

datatype 'a outcome = Returns 'a | Rejects error | Waits nat

definition resource :: "handler \<Rightarrow> res outcome" where
  "resource h =
     (case await_resource h of
        Pending c \<Rightarrow> Waits c
      | Rejected e \<Rightarrow> Rejects e
      | Fulfilled None \<Rightarrow> Rejects (NotAvailable (name (p_opts h)))
      | Fulfilled (Some r) \<Rightarrow> Returns r)"

definition connect :: "handler \<Rightarrow> handler \<times> res option awaited" where
  "connect h = (let h1 = p_connect False h in (h1, await_resource h1))"

text \<open>
  \<open>close\<close>. Its promise is rejected, resolved, still waiting for the resource, or it is
  the promise returned by \<open>closer(res)\<close> or by \<open>res.close()\<close>.
\<close>

datatype close_result =
    CloseRejected error
  | CloseResolved
  | CloseWaiting nat
  | CloseDelegated res_call

definition close_resume :: "res option \<Rightarrow> handler \<Rightarrow> handler \<times> close_result" where
  "close_resume v h =
     (case v of
        None \<Rightarrow> (h, CloseResolved)
      | Some r \<Rightarrow>
          let h1 = res_removeAllListeners r h
          in if closer (p_opts h1)
             then (h1\<lparr>res_calls := res_calls h1 @ [ResCloser r]\<rparr>, CloseDelegated (ResCloser r))
             else (h1\<lparr>res_calls := res_calls h1 @ [ResClose r]\<rparr>, CloseDelegated (ResClose r)))"

definition close :: "handler \<Rightarrow> handler \<times> close_result" where
  "close h =
     (if p_status h = Closed then (h, CloseRejected (IsClosed (name (p_opts h))))
      else if p_status h = Connecting then (p_setStatus Closing h, CloseResolved)
      else
        let h1 = p_setStatus Closed h
        in case await_resource h1 of
             Pending c \<Rightarrow> (h1\<lparr>waiters := waiters h1 @ [(c, K_close)]\<rparr>, CloseWaiting c)
           | Rejected e \<Rightarrow> (h1, CloseRejected e)
           | Fulfilled v \<Rightarrow> close_resume v h1)"

text \<open>
  \<open>__handleReconnect\<close> up to its first \<open>await this.__delay(...)\<close>: the flag is set, the
  counter is reset, the loop test \<open>0 < maxReconnectAttempts\<close> holds (the constant is 5),
  the counter becomes 1 and the function waits for the delay.
\<close>

definition p_handleReconnect :: "handler \<Rightarrow> handler" where
  "p_handleReconnect h =
     (if isReconnecting h then h
      else h\<lparr>isReconnecting := True, reconnectAttempts := 0 + 1\<rparr>)"

text \<open>
  The rest of the first iteration, when the delay has elapsed. \<open>__connect\<close> returns
  \<open>undefined\<close> and does not throw, so \<open>await this.__connect(true)\<close> continues at once, the
  flag is cleared and the function returns: the \<open>catch\<close> branch and a second iteration
  are never taken.
\<close>

definition p_handleReconnect_resume :: "handler \<Rightarrow> handler" where
  "p_handleReconnect_resume h = (p_connect True h)\<lparr>isReconnecting := False\<rparr>"

definition p_attemptReconnect :: "handler \<Rightarrow> handler \<times> res option awaited" where
  "p_attemptReconnect h =
     (if p_status h \<noteq> Connected then connect h else (h, Fulfilled None))"

text \<open>
  \<open>__setToClose\<close> up to its \<open>await\<close>: it has returned (\<open>Fulfilled\<close> with no continuation
  left, written \<open>StcReturned\<close>), it waits for a pending promise and is queued behind it,
  or the awaited promise is already settled and the rest is ready to run.
\<close>

datatype stc = StcReturned | StcWaiting | StcReady "error option"

definition p_setToClose_start :: "handler \<Rightarrow> handler \<times> stc" where
  "p_setToClose_start h =
     (if isReconnecting h then (h, StcReturned)
      else
        case p_attemptReconnect h of
          (h1, Pending c) \<Rightarrow> (h1\<lparr>waiters := waiters h1 @ [(c, K_setToClose)]\<rparr>, StcWaiting)
        | (h1, Fulfilled v) \<Rightarrow> (h1, StcReady None)
        | (h1, Rejected e) \<Rightarrow> (h1, StcReady (Some e)))"

definition p_setToClose_closing :: "handler \<Rightarrow> handler" where
  "p_setToClose_closing h =
     removeAllListeners (emit EvClose (p_setStatus Closed (h\<lparr>p_resource := RejectedClosed\<rparr>)))"

definition p_setToClose_resume :: "error option \<Rightarrow> handler \<Rightarrow> handler" where
  "p_setToClose_resume reconnectError h =
     (case reconnectError of
        None \<Rightarrow> if p_status h = Connected then h else p_setToClose_closing h
      | Some e \<Rightarrow> p_setToClose_closing (h\<lparr>p_err := Some e\<rparr>))"

text \<open>
  The promise of a run settles: the continuations queued behind it run, in the order in
  which they were queued.
\<close>

fun run_waiter :: "res option \<Rightarrow> cont \<Rightarrow> handler \<Rightarrow> handler" where
  "run_waiter v K_close h = fst (close_resume v h)"
| "run_waiter v K_setToClose h = p_setToClose_resume None h"

fun run_waiters :: "nat \<Rightarrow> res option \<Rightarrow> (nat \<times> cont) list \<Rightarrow> handler \<Rightarrow> handler" where
  "run_waiters c v [] h = h"
| "run_waiters c v ((c', k) # ws) h =
     (if c' = c then run_waiters c v ws (run_waiter v k h) else run_waiters c v ws h)"

definition settle :: "nat \<Rightarrow> res option \<Rightarrow> handler \<Rightarrow> handler" where
  "settle c v h =
     run_waiters c v (waiters h)
       (h\<lparr>retry_runs := (retry_runs h)[c := (retry_runs h ! c)\<lparr>phase := Settled v\<rparr>],
          waiters := filter (\<lambda>w. fst w \<noteq> c) (waiters h)\<rparr>)"

definition catch_handler :: "error \<Rightarrow> handler \<Rightarrow> handler" where
  \<comment> \<open>the \<open>.catch\<close> callback of \<open>__connect\<close>; it resolves the promise to null\<close>
  "catch_handler e h = emit (EvError e) (p_setStatus Error (h\<lparr>p_err := Some e\<rparr>))"

text \<open>
  The \<open>.then\<close> callback of \<open>__connect\<close>, and what follows it. When the handler is
  \<open>Closing\<close>, \<open>__setToClose\<close> is started and the callback rejects, so the \<open>.catch\<close>
  callback runs and the promise resolves to null. When \<open>__setToClose\<close> found the promise it
  awaits already settled, its continuation and the \<open>.catch\<close> callback are both queued, and
  which runs first depends on how many microtask turns each \<open>await\<close> takes: the embedding
  does not decide it (\<open>None\<close>).
\<close>

definition on_resolved :: "nat \<Rightarrow> res \<Rightarrow> handler \<Rightarrow> handler option" where
  "on_resolved c r h =
     (if p_status h = Closing then
        (case p_setToClose_start h of
           (h1, StcReady e) \<Rightarrow> None
         | (h1, _) \<Rightarrow> Some (settle c None (catch_handler (IsClosed (name (p_opts h1))) h1)))
      else
        Some (settle c (Some r) (emit EvOpen (p_setStatus Connected (p_subscribe r h)))))"

text \<open>
  The \<open>retry\<close> package's \<open>mainError\<close>: the error whose message occurred most often,
  the later one on a tie.
\<close>

fun mainError_loop :: "error list \<Rightarrow> error list \<Rightarrow> error \<Rightarrow> nat \<Rightarrow> error" where
  "mainError_loop seen [] best bestCount = best"
| "mainError_loop seen (e # es) best bestCount =
     (let n = count_list seen e + 1
      in if n \<ge> bestCount then mainError_loop (seen @ [e]) es e n
         else mainError_loop (seen @ [e]) es best bestCount)"

definition mainError :: "error \<Rightarrow> error list \<Rightarrow> error" where
  "mainError e es = mainError_loop [] es e 0"

text \<open>
  A failed attempt, as \<open>p-retry\<close> handles it. A \<open>TypeError\<close> ends the run at once and is
  what the run rejects with, unless its message is one of the network-error texts of
  the package (\<open>error instanceof TypeError && !isNetworkError(error.message)\<close>); the
  two constructors of \<open>error\<close> record which of the two a \<open>TypeError\<close> is. For any other
  error \<open>onFailedAttempt\<close> emits \<open>retry\<close> with the attempt number and
  \<open>retries - (attemptNumber - 1)\<close> retries left; then either a back-off timer is started,
  or no retry is left and the run rejects with the main error. The \<open>.catch\<close> callback
  receives the rejection. (The factory is taken to reject with \<open>Error\<close> objects, and not
  with an abort error of its own.)
\<close>

fun stops_retry :: "error \<Rightarrow> bool" where
  "stops_retry (TypeError m) = True"
| "stops_retry e = False"

definition on_rejected :: "nat \<Rightarrow> error \<Rightarrow> handler \<Rightarrow> handler" where
  "on_rejected c e h =
     (if stops_retry e then settle c None (catch_handler e h)
      else
        let ch = retry_runs h ! c;
            k = attemptNumber ch;
            h1 = emit (EvRetry e k (retries (p_opts h) - (k - 1))) h;
            ch1 = ch\<lparr>errors := errors ch @ [e]\<rparr>
        in if k \<le> retries (p_opts h)
           then h1\<lparr>retry_runs := (retry_runs h1)[c := ch1\<lparr>phase := Backoff\<rparr>]\<rparr>
           else settle c None
                  (catch_handler (mainError e (errors ch1))
                     (h1\<lparr>retry_runs := (retry_runs h1)[c := ch1]\<rparr>)))"

text \<open>
  The back-off timer fires and the attempt function runs again. When the handler is
  \<open>Closing\<close> it starts \<open>__setToClose\<close> and throws the abort error, which ends the run: the
  \<open>.catch\<close> callback receives the error. Otherwise the factory is invoked once more.
\<close>

definition on_backoff :: "nat \<Rightarrow> handler \<Rightarrow> handler option" where
  "on_backoff c h =
     (if p_status h = Closing then
        (case p_setToClose_start h of
           (h1, StcReady e) \<Rightarrow> None
         | (h1, _) \<Rightarrow> Some (settle c None (catch_handler Aborted h1)))
      else
        Some (h\<lparr>retry_runs := (retry_runs h)[c := (retry_runs h ! c)
                    \<lparr>phase := InFlight, attemptNumber := attemptNumber (retry_runs h ! c) + 1\<rparr>],
                factory_calls := factory_calls h + 1\<rparr>))"

text \<open>The listeners that \<open>__subscribe\<close> puts on the resource.\<close>

definition on_res_error :: "res \<Rightarrow> error \<Rightarrow> handler \<Rightarrow> handler" where
  "on_res_error r e h =
     emit (EvError e)
       (p_handleReconnect (p_setStatus Error ((res_removeAllListeners r h)\<lparr>p_err := Some e\<rparr>)))"

definition on_res_close :: "res \<Rightarrow> handler \<Rightarrow> handler" where
  "on_res_close r h =
     (case p_setToClose_start (res_removeAllListeners r h) of
        (h1, StcReady e) \<Rightarrow> p_setToClose_resume e h1
      | (h1, _) \<Rightarrow> h1)"

text \<open>
  The constructor. \<open>x || d\<close> takes the default for an absent, empty or zero \<open>x\<close>.
\<close>

definition ResourceHandler :: "OptionsArg option \<Rightarrow> handler" where
  "ResourceHandler opts =
     p_connect True
       \<lparr>p_opts =
          \<lparr>name = (case opts of None \<Rightarrow> ''Resource''
                    | Some a \<Rightarrow> if arg_name a = [] then ''Resource'' else arg_name a),
           closer = (case opts of None \<Rightarrow> False | Some a \<Rightarrow> arg_closer a),
           retries = (case opts of None \<Rightarrow> 10
                      | Some a \<Rightarrow> (case arg_retries a of None \<Rightarrow> 10
                                   | Some n \<Rightarrow> if n = 0 then 10 else n)),
           eventBindings = (case opts of None \<Rightarrow> [] | Some a \<Rightarrow> arg_eventBindings a)\<rparr>,
        p_resource = Unset,
        p_err = None,
        p_status = Connecting,
        isReconnecting = False,
        reconnectAttempts = 0,
        retry_runs = [],
        waiters = [],
        subscribed = [],
        emitted = [],
        status_events = [],
        res_calls = [],
        factory_calls = 0,
        listeners_removed = False\<rparr>"

subsection \<open>The event loop\<close>

datatype stimulus =
    FactoryResolves nat res   \<comment> \<open>the factory promise of a run resolves\<close>
  | FactoryRejects nat error  \<comment> \<open>the factory promise of a run rejects\<close>
  | BackoffElapsed nat        \<comment> \<open>the back-off timer of a run fires\<close>
  | DelayElapsed              \<comment> \<open>the timer of \<open>__delay(reconnectDelay)\<close> fires\<close>
  | ResourceError res error   \<comment> \<open>the resource emits \<open>error\<close>\<close>
  | ResourceClose res         \<comment> \<open>the resource emits \<open>close\<close>\<close>
  | ResourceEvent res string  \<comment> \<open>the resource emits another event\<close>
  | CallClose
  | CallConnect

text \<open>
  A stimulus that cannot occur in a state (no such promise or timer is pending, no
  listener is registered) gives \<open>None\<close>.
\<close>

fun step :: "stimulus \<Rightarrow> handler \<Rightarrow> handler option" where
  "step (FactoryResolves c r) h =
     (if c < length (retry_runs h) \<and> phase (retry_runs h ! c) = InFlight
      then on_resolved c r h else None)"
| "step (FactoryRejects c e) h =
     (if c < length (retry_runs h) \<and> phase (retry_runs h ! c) = InFlight
      then Some (on_rejected c e h) else None)"
| "step (BackoffElapsed c) h =
     (if c < length (retry_runs h) \<and> phase (retry_runs h ! c) = Backoff
      then on_backoff c h else None)"
| "step DelayElapsed h =
     (if isReconnecting h then Some (p_handleReconnect_resume h) else None)"
| "step (ResourceError r e) h =
     (if r \<in> set (subscribed h) then Some (on_res_error r e h) else None)"
| "step (ResourceClose r) h =
     (if r \<in> set (subscribed h) then Some (on_res_close r h) else None)"
| "step (ResourceEvent r n) h =
     (if r \<in> set (subscribed h) \<and> n \<in> set (eventBindings (p_opts h))
      then Some (emit (EvForward n) h) else None)"
| "step CallClose h = Some (fst (close h))"
| "step CallConnect h = Some (fst (connect h))"

fun run :: "stimulus list \<Rightarrow> handler \<Rightarrow> handler option" where
  "run [] h = Some h"
| "run (s # ss) h = (case step s h of None \<Rightarrow> None | Some h' \<Rightarrow> run ss h')"

subsection \<open>Attempt sequences\<close>

text \<open>
  The stimuli of a run whose attempts fail with the errors \<open>es\<close>, one after the other,
  each failure followed by its back-off timer, and the \<open>retry\<close> events they cause, from
  attempt number \<open>k\<close> on, under a budget of \<open>R\<close> retries.
\<close>

fun failures :: "nat \<Rightarrow> error list \<Rightarrow> stimulus list" where
  "failures c [] = []"
| "failures c (e # es) = FactoryRejects c e # BackoffElapsed c # failures c es"

fun retry_events :: "nat \<Rightarrow> nat \<Rightarrow> error list \<Rightarrow> event list" where
  "retry_events R k [] = []"
| "retry_events R k (e # es) = EvRetry e k (R - (k - 1)) # retry_events R (Suc k) es"

section \<open>The connection (src/core/connection.ts) and its settings\<close>

record ConnectionSettings =
  host :: string
  port :: int
  vhost :: string
  keepAlive :: int
  useTLS :: bool
  verifyServerCert :: bool
  useCA :: bool
  ca :: string
  useTopology :: bool
  topology :: string
  username :: string
  password :: string

record connection =
  p_settings :: ConnectionSettings
  p_conn :: handler

text \<open>
  The constructor. The factory \<open>() => openInternal(this.__settings)\<close> belongs to the
  environment: its results arrive as stimuli of the handler.
\<close>

definition Connection :: "ConnectionSettings \<Rightarrow> connection" where
  "Connection settings =
     \<lparr>p_settings = settings,
      p_conn = ResourceHandler
        (Some \<lparr>arg_name = ''Connection'', arg_closer = False, arg_retries = None,
               arg_eventBindings = []\<rparr>)\<rparr>"

definition Connection_close :: "connection \<Rightarrow> connection \<times> close_result" where
  "Connection_close c = (c\<lparr>p_conn := fst (close (p_conn c))\<rparr>, snd (close (p_conn c)))"

section \<open>The pool (src/core/pool.ts)\<close>

text \<open>
  \<open>POOL\<close> maps a fingerprint to a connection object. Objects live in a heap and are
  identified by their address; \<open>new Connection(settings)\<close> allocates the next address.
  The fingerprint function \<open>toHash\<close> of the package \<open>object-hash\<close> is a parameter.
\<close>

record 'k pool =
  POOL :: "'k \<rightharpoonup> nat"
  heap :: "connection list"

definition pool_empty :: "'k pool" where
  "pool_empty = \<lparr>POOL = Map.empty, heap = []\<rparr>"

definition pool_open ::
  "(ConnectionSettings \<Rightarrow> 'k) \<Rightarrow> ConnectionSettings \<Rightarrow> 'k pool \<Rightarrow> nat \<times> 'k pool" where
  "pool_open toHash settings p =
     (let hash = toHash settings
      in case POOL p hash of
           Some conn \<Rightarrow> (conn, p)
         | None \<Rightarrow>
             let conn = length (heap p)
             in (conn, p\<lparr>heap := heap p @ [Connection settings],
                         POOL := (POOL p)(hash \<mapsto> conn)\<rparr>))"

text \<open>
  \<open>close\<close> of the pool. \<open>conn.close()\<close> is called and its promise is dropped, so the
  promise of the pool's \<open>close\<close> resolves whatever the connection answers.
\<close>

definition pool_close ::
  "(ConnectionSettings \<Rightarrow> 'k) \<Rightarrow> ConnectionSettings \<Rightarrow> 'k pool \<Rightarrow> 'k pool \<times> unit outcome" where
  "pool_close toHash settings p =
     (let hash = toHash settings
      in case POOL p hash of
           None \<Rightarrow> (p, Returns ())
         | Some conn \<Rightarrow>
             (p\<lparr>POOL := (POOL p)(hash := None),
                heap := (heap p)[conn := fst (Connection_close (heap p ! conn))]\<rparr>,
              Returns ()))"

text \<open>
  What can happen to a pool: a caller opens or closes with some settings, or the handler
  of the connection at some address receives a stimulus.
\<close>

datatype pool_op =
    PoolOpen ConnectionSettings
  | PoolClose ConnectionSettings
  | PoolStimulus nat stimulus

definition Connection_step :: "stimulus \<Rightarrow> connection \<Rightarrow> connection" where
  "Connection_step x c =
     (case step x (p_conn c) of None \<Rightarrow> c | Some h \<Rightarrow> c\<lparr>p_conn := h\<rparr>)"

fun pool_apply :: "(ConnectionSettings \<Rightarrow> 'k) \<Rightarrow> pool_op \<Rightarrow> 'k pool \<Rightarrow> 'k pool" where
  "pool_apply toHash (PoolOpen s) p = snd (pool_open toHash s p)"
| "pool_apply toHash (PoolClose s) p = fst (pool_close toHash s p)"
| "pool_apply toHash (PoolStimulus a x) p =
     (if a < length (heap p) then p\<lparr>heap := (heap p)[a := Connection_step x (heap p ! a)]\<rparr>
      else p)"

fun pool_run :: "(ConnectionSettings \<Rightarrow> 'k) \<Rightarrow> pool_op list \<Rightarrow> 'k pool \<Rightarrow> 'k pool" where
  "pool_run toHash [] p = p"
| "pool_run toHash (x # xs) p = pool_run toHash xs (pool_apply toHash x p)"

text \<open>
  What holds of every pool that the two operations build from the empty one: a
  registered address is allocated, and two fingerprints never share a connection.
\<close>

definition pool_inv :: "'k pool \<Rightarrow> bool" where
  "pool_inv p \<longleftrightarrow>
     (\<forall>k c. POOL p k = Some c \<longrightarrow> c < length (heap p)) \<and>
     (\<forall>k k' c. POOL p k = Some c \<longrightarrow> POOL p k' = Some c \<longrightarrow> k = k')"

section \<open>The sender and the subscriber (src/core/sender.ts, src/core/subscriber.ts)\<close>

record sender =
  sender_handler :: handler
  sender_exchange :: string

text \<open>
  The constructor of the sender. The connection is used by the factory
  (\<open>conn.createChannel()\<close>) and by the closer, which belong to the environment.
\<close>

definition Sender :: "string \<Rightarrow> sender" where
  "Sender exchange =
     \<lparr>sender_handler = ResourceHandler
        (Some \<lparr>arg_name = ''Sender'', arg_closer = True, arg_retries = None,
               arg_eventBindings = []\<rparr>),
      sender_exchange = exchange\<rparr>"

record 'o publish_call =
  pub_channel :: res
  pub_exchange :: string
  pub_routingKey :: string
  pub_content :: bytes
  pub_options :: "'o option"

text \<open>
  \<open>send\<close>. The runtime's \<open>JSON.stringify\<close> (which gives \<open>undefined\<close> for a value without
  a JSON text, such as \<open>undefined\<close> itself), its \<open>Buffer.from(_, 'utf8')\<close> (which throws a
  \<open>TypeError\<close> with the code \<open>ERR_INVALID_ARG_TYPE\<close> on \<open>undefined\<close>) and the channel's
  \<open>publish\<close> (which answers with the flow-control boolean or throws) are parameters.
  The result is the list of calls made to \<open>publish\<close> and the outcome of the promise.
\<close>

definition send ::
  "('p \<Rightarrow> string option) \<Rightarrow> (string \<Rightarrow> bytes) \<Rightarrow> ('o publish_call \<Rightarrow> error + bool) \<Rightarrow>
   sender \<Rightarrow> string \<Rightarrow> 'p \<Rightarrow> 'o option \<Rightarrow> 'o publish_call list \<times> bool outcome" where
  "send JSON_stringify Buffer_from publish s topic payload options =
     (case resource (sender_handler s) of
        Waits c \<Rightarrow> ([], Waits c)
      | Rejects e \<Rightarrow> ([], Rejects e)
      | Returns ch \<Rightarrow>
          (case JSON_stringify payload of
             None \<Rightarrow> ([], Rejects (TypeError ''ERR_INVALID_ARG_TYPE''))
           | Some text \<Rightarrow>
               let call = \<lparr>pub_channel = ch, pub_exchange = sender_exchange s,
                           pub_routingKey = topic, pub_content = Buffer_from text,
                           pub_options = options\<rparr>
               in ([call], case publish call of Inl e \<Rightarrow> Rejects e | Inr ok \<Rightarrow> Returns ok)))"

definition Sender_close :: "sender \<Rightarrow> sender \<times> unit outcome" where
  \<comment> \<open>\<open>this.__handler.close()\<close> is called and its promise is dropped\<close>
  "Sender_close s = (s\<lparr>sender_handler := fst (close (sender_handler s))\<rparr>, Returns ())"

record subscriber =
  subscriber_handler :: handler
  subscriber_queue :: string

definition Subscriber :: "string \<Rightarrow> subscriber" where
  "Subscriber queue =
     \<lparr>subscriber_handler = ResourceHandler None, subscriber_queue = queue\<rparr>"




definition Subscriber_close :: "subscriber \<Rightarrow> subscriber \<times> unit outcome" where
  "Subscriber_close s =
     (s\<lparr>subscriber_handler := fst (close (subscriber_handler s))\<rparr>, Returns ())"

section \<open>Example inputs\<close>

text \<open>A handler built with the default options whose first attempt produced resource 7.\<close>

definition example_connected :: handler where
  "example_connected =
     (case run [FactoryResolves 0 7] (ResourceHandler None) of
        None \<Rightarrow> ResourceHandler None
      | Some h \<Rightarrow> h)"

definition example_settings :: ConnectionSettings where
  "example_settings =
     \<lparr>host = ''localhost'', port = 5672, vhost = ''/'', keepAlive = 60, useTLS = False,
      verifyServerCert = False, useCA = False, ca = [], useTopology = False,
      topology = [], username = ''guest'', password = ''guest''\<rparr>"

definition example_toHash :: "ConnectionSettings \<Rightarrow> string \<times> int \<times> string \<times> string" where
  "example_toHash s = (host s, port s, username s, password s)"

definition example_pool :: "(string \<times> int \<times> string \<times> string) pool" where
  "example_pool = snd (pool_open example_toHash example_settings pool_empty)"

definition example_sender :: sender where
  "example_sender = \<lparr>sender_handler = example_connected, sender_exchange = ''logs''\<rparr>"

text \<open>
  A payload that is \<open>undefined\<close> (\<open>None\<close>) or a boolean, and \<open>JSON.stringify\<close> on such
  payloads.
\<close>

definition example_stringify :: "bool option \<Rightarrow> string option" where
  "example_stringify v =
     (case v of None \<Rightarrow> None | Some b \<Rightarrow> Some (if b then ''true'' else ''false''))"

definition example_utf8 :: "string \<Rightarrow> bytes" where
  "example_utf8 text = map of_char text"

definition example_publish :: "unit publish_call \<Rightarrow> error + bool" where
  "example_publish call = Inr True"



section \<open>Properties of the resource handler\<close>

lemmas handler_defs =
  ResourceHandler_def p_connect_def p_setStatus_def close_def close_resume_def
  on_resolved_def on_rejected_def on_backoff_def on_res_error_def on_res_close_def
  p_setToClose_start_def p_setToClose_resume_def p_setToClose_closing_def
  p_attemptReconnect_def connect_def await_resource_def settle_def catch_handler_def
  emit_def removeAllListeners_def res_removeAllListeners_def p_subscribe_def
  p_handleReconnect_def p_handleReconnect_resume_def resource_def mainError_def Let_def

lemma example_connected_eq:
  "run [FactoryResolves 0 7] (ResourceHandler None) = Some example_connected"
  by (simp add: example_connected_def handler_defs)

lemma example_connected_facts:
  "p_status example_connected = Connected"
  "await_resource example_connected = Fulfilled (Some 7)"
  "closer (p_opts example_connected) = False"
  "name (p_opts example_connected) = ''Resource''"
  "status_events example_connected = [Connecting, Connected]"
  "emitted example_connected = [EvOpen]"
  "res_calls example_connected = []"
  by (simp_all add: example_connected_def handler_defs)

subsection \<open>What \<open>close\<close> does, by the state of the awaited promise\<close>

lemma await_resource_setStatus [simp]:
  "await_resource (p_setStatus s h) = await_resource h"
  by (simp add: await_resource_def p_setStatus_def split: slot.splits)

lemma close_closed:
  "p_status h = Closed \<Longrightarrow> close h = (h, CloseRejected (IsClosed (name (p_opts h))))"
  by (simp add: close_def)

lemma close_connecting:
  "p_status h = Connecting \<Longrightarrow> close h = (p_setStatus Closing h, CloseResolved)"
  by (simp add: close_def)

lemma close_fulfilled:
  "p_status h \<noteq> Connecting \<Longrightarrow> p_status h \<noteq> Closed \<Longrightarrow> await_resource h = Fulfilled v \<Longrightarrow>
   close h = close_resume v (p_setStatus Closed h)"
  by (simp add: close_def Let_def)

lemma close_pending:
  "p_status h \<noteq> Connecting \<Longrightarrow> p_status h \<noteq> Closed \<Longrightarrow> await_resource h = Pending c \<Longrightarrow>
   close h = ((p_setStatus Closed h)\<lparr>waiters := waiters h @ [(c, K_close)]\<rparr>, CloseWaiting c)"
  by (simp add: close_def Let_def) (simp add: p_setStatus_def)

lemma close_rejected:
  "p_status h \<noteq> Connecting \<Longrightarrow> p_status h \<noteq> Closed \<Longrightarrow> await_resource h = Rejected e \<Longrightarrow>
   close h = (p_setStatus Closed h, CloseRejected e)"
  by (simp add: close_def Let_def)

lemma close_status_opts:
  assumes c: "p_status h \<noteq> Connecting"
  shows "p_status (fst (close h)) = Closed \<and> p_opts (fst (close h)) = p_opts h"
proof (cases "p_status h = Closed")
  case True
  then show ?thesis by (simp add: close_closed)
next
  case False
  show ?thesis
  proof (cases "await_resource h")
    case (Pending c')
    show ?thesis unfolding close_pending [OF c False Pending] by (simp add: p_setStatus_def)
  next
    case (Fulfilled v)
    show ?thesis unfolding close_fulfilled [OF c False Fulfilled]
      by (simp add: close_resume_def res_removeAllListeners_def p_setStatus_def Let_def
          split: option.splits)
  next
    case (Rejected e)
    show ?thesis unfolding close_rejected [OF c False Rejected] by (simp add: p_setStatus_def)
  qed
qed

lemma close_status:
  "p_status (fst (close h)) = (if p_status h = Connecting then Closing else Closed)"
  using close_status_opts [of h] by (simp add: close_connecting p_setStatus_def)

lemma close_no_resource:
  assumes "p_status h \<noteq> Connecting" and "p_status h \<noteq> Closed"
    and "await_resource h = Fulfilled None"
  shows "close h = (p_setStatus Closed h, CloseResolved)"
  unfolding close_fulfilled [OF assms] by (simp add: close_resume_def)

subsection \<open>Closing a handler\<close>

text \<open>
  After \<open>close()\<close> on a handler that holds a resource the promise in \<open>__resource\<close> is
  the same as before, so \<open>resource()\<close> still returns the resource.
\<close>

lemma resource_after_close:
  assumes "p_status h \<noteq> Connecting" and "p_status h \<noteq> Closed"
    and "await_resource h = Fulfilled (Some r)"
  shows "resource (fst (close h)) = Returns r"
proof -
  have "await_resource (fst (close_resume (Some r) (p_setStatus Closed h))) = await_resource h"
    by (simp add: close_resume_def res_removeAllListeners_def await_resource_def p_setStatus_def
        Let_def split: slot.splits)
  then show ?thesis
    unfolding close_fulfilled [OF assms] by (simp add: resource_def assms)
qed

text \<open>A forced \<open>__connect\<close> starts an attempt whatever the status is.\<close>

lemma forced_connect_ignores_status:
  "p_status (p_connect True h) = Connecting \<and>
   factory_calls (p_connect True h) = factory_calls h + 1"
  by (simp add: p_connect_def p_setStatus_def Let_def)

text \<open>
  A handler is closed while the attempt its promise belongs to is in flight, no
  reconnect loop is waiting and nothing is queued behind the promise; then the attempt
  produces \<open>r\<close>. The status goes through \<open>Closing\<close> and \<open>Error\<close> to \<open>Closed\<close>, never to
  \<open>Connected\<close>; \<open>r\<close> gets no listener and no call.
\<close>

lemma close_then_resolve:
  assumes "p_status h = Connecting" and "p_resource h = Attempt c"
    and "c < length (retry_runs h)" and "phase (retry_runs h ! c) = InFlight"
    and "\<not> isReconnecting h" and "waiters h = []"
  shows "\<exists>h'. run [CallClose, FactoryResolves c r] h = Some h' \<and>
           p_status h' = Closed \<and>
           status_events h' = status_events h @ [Closing, Error, Closed] \<and>
           emitted h' = emitted h @ [EvError (IsClosed (name (p_opts h))), EvClose] \<and>
           res_calls h' = res_calls h \<and> subscribed h' = subscribed h \<and>
           p_resource h' = RejectedClosed"
proof -
  let ?h1 = "p_setStatus Closing h"
  have c1: "fst (close h) = ?h1"
    using assms by (simp add: close_connecting)
  have a: "p_attemptReconnect ?h1 = (?h1, Pending c)"
    using assms
    by (simp add: p_attemptReconnect_def connect_def p_connect_def await_resource_def
        p_setStatus_def)
  have b: "p_setToClose_start ?h1 = (?h1\<lparr>waiters := [(c, K_setToClose)]\<rparr>, StcWaiting)"
    using assms by (simp add: p_setToClose_start_def a) (simp add: p_setStatus_def)
  have s: "step (FactoryResolves c r) ?h1 =
           Some (settle c None
                   (catch_handler (IsClosed (name (p_opts h)))
                      (?h1\<lparr>waiters := [(c, K_setToClose)]\<rparr>)))"
    using assms by (simp add: on_resolved_def b) (simp add: p_setStatus_def)
  let ?h2 = "settle c None
               (catch_handler (IsClosed (name (p_opts h)))
                  (?h1\<lparr>waiters := [(c, K_setToClose)]\<rparr>))"
  have s0: "step CallClose h = Some ?h1"
    by (simp add: c1)
  have r: "run [CallClose, FactoryResolves c r] h = Some ?h2"
    by (simp add: s0 s del: step.simps)
  have "p_status ?h2 = Closed"
    "status_events ?h2 = status_events h @ [Closing, Error, Closed]"
    "emitted ?h2 = emitted h @ [EvError (IsClosed (name (p_opts h))), EvClose]"
    "res_calls ?h2 = res_calls h" "subscribed ?h2 = subscribed h"
    "p_resource ?h2 = RejectedClosed"
    by (simp_all add: settle_def catch_handler_def emit_def p_setStatus_def
        p_setToClose_resume_def p_setToClose_closing_def removeAllListeners_def)
  then show ?thesis using r by simp
qed

text \<open>
  C1. The claim: once \<open>close()\<close> has completed the handler is terminally \<open>Closed\<close>, it
  attempts no further acquisition and every later \<open>resource()\<close> rejects. Evaluated on a
  handler with default options whose first attempt produced resource 7.
  Closed while connected, the handler is \<open>Closed\<close> and \<open>resource()\<close> still returns
  resource 7. Closed after the resource emitted \<open>error\<close>, the handler is \<open>Closed\<close> after
  one factory call; when the delay of the reconnect loop started by that \<open>error\<close> has
  elapsed, the factory has been called a second time and the status is \<open>Connecting\<close>.
\<close>

theorem closed_handler_is_not_terminal:
  "map_option p_status (run [FactoryResolves 0 7, CallClose] (ResourceHandler None)) = Some Closed \<and>
   map_option resource (run [FactoryResolves 0 7, CallClose] (ResourceHandler None)) =
     Some (Returns 7) \<and>
   map_option p_status
     (run [FactoryResolves 0 7, ResourceError 7 (Failure ''lost''), CallClose]
        (ResourceHandler None)) = Some Closed \<and>
   map_option factory_calls
     (run [FactoryResolves 0 7, ResourceError 7 (Failure ''lost''), CallClose]
        (ResourceHandler None)) = Some 1 \<and>
   map_option p_status
     (run [FactoryResolves 0 7, ResourceError 7 (Failure ''lost''), CallClose, DelayElapsed]
        (ResourceHandler None)) = Some Connecting \<and>
   map_option factory_calls
     (run [FactoryResolves 0 7, ResourceError 7 (Failure ''lost''), CallClose, DelayElapsed]
        (ResourceHandler None)) = Some 2"
  by (simp add: handler_defs)

text \<open>
  C2. The claim: \<open>close()\<close> on a \<open>Connecting\<close> handler sets \<open>Closing\<close> and returns; when
  the attempt in flight resolves, the handler tears down, the fresh resource is discarded
  through its closer or its \<open>close\<close>, the status is never \<open>Connected\<close> and ends \<open>Closed\<close>.
  Evaluated on a new handler with default options that is closed at once and whose
  attempt then produces resource 7: \<open>close()\<close> resolves and the status is \<open>Closing\<close>; after
  the attempt resolved, the status went through \<open>Error\<close> to \<open>Closed\<close>, and nothing was ever
  called on resource 7, neither the closer nor its \<open>close\<close>. On a handler with one retry
  that is closed during its second and last attempt, the failure of that attempt leaves
  the status \<open>Error\<close>.
\<close>

theorem close_while_connecting_drops_resource:
  "snd (close (ResourceHandler None)) = CloseResolved \<and>
   map_option p_status (run [CallClose] (ResourceHandler None)) = Some Closing \<and>
   map_option status_events (run [CallClose, FactoryResolves 0 7] (ResourceHandler None)) =
     Some [Connecting, Closing, Error, Closed] \<and>
   map_option emitted (run [CallClose, FactoryResolves 0 7] (ResourceHandler None)) =
     Some [EvError (IsClosed ''Resource''), EvClose] \<and>
   map_option res_calls (run [CallClose, FactoryResolves 0 7] (ResourceHandler None)) = Some [] \<and>
   map_option p_status
     (run [FactoryRejects 0 (Failure ''refused''), BackoffElapsed 0, CallClose,
           FactoryRejects 0 (Failure ''refused'')]
        (ResourceHandler (Some \<lparr>arg_name = ''Resource'', arg_closer = False,
                                 arg_retries = Some 1, arg_eventBindings = []\<rparr>))) = Some Error"
  by (simp add: handler_defs)

text \<open>
  C3, as the claim states it: \<open>close()\<close> on a handler that is neither \<open>Connecting\<close> nor
  \<open>Closed\<close> passes through \<open>Closing\<close> and ends by emitting \<open>close\<close>. On the connected
  example handler the statuses set are \<open>Connecting\<close>, \<open>Connected\<close>, \<open>Closed\<close>, without
  \<open>Closing\<close>, and the only event emitted is the earlier \<open>open\<close>.
\<close>

theorem close_connected_counterexample:
  "map_option p_status (run [FactoryResolves 0 7] (ResourceHandler None)) = Some Connected \<and>
   map_option status_events (run [FactoryResolves 0 7, CallClose] (ResourceHandler None)) =
     Some [Connecting, Connected, Closed] \<and>
   map_option emitted (run [FactoryResolves 0 7, CallClose] (ResourceHandler None)) =
     Some [EvOpen]"
  by (simp add: handler_defs)

lemma close_res_calls:
  assumes "p_status h \<noteq> Connecting" and "p_status h \<noteq> Closed"
    and "await_resource h = Fulfilled (Some r)"
  shows "res_calls (fst (close h)) =
           res_calls h @ [ResRemoveAllListeners r,
                          if closer (p_opts h) then ResCloser r else ResClose r]"
  unfolding close_fulfilled [OF assms]
  by (simp add: close_resume_def res_removeAllListeners_def p_setStatus_def Let_def)

text \<open>
  C3, amended: on every handler that is neither \<open>Connecting\<close> nor \<open>Closed\<close> and holds a
  resource, \<open>close()\<close> sets the status to \<open>Closed\<close> at once, emits no event, removes the
  listeners of the resource and calls the closer supplied by the caller on it, or the
  resource's own \<open>close\<close> when no closer was supplied; its promise is the one that call
  returns.
\<close>

theorem close_sets_Closed_and_closes_resource:
  assumes "p_status h \<noteq> Connecting" and "p_status h \<noteq> Closed"
    and "await_resource h = Fulfilled (Some r)"
  shows "p_status (fst (close h)) = Closed \<and>
         status_events (fst (close h)) = status_events h @ [Closed] \<and>
         emitted (fst (close h)) = emitted h \<and>
         res_calls (fst (close h)) =
           res_calls h @ [ResRemoveAllListeners r,
                          if closer (p_opts h) then ResCloser r else ResClose r] \<and>
         snd (close h) = CloseDelegated (if closer (p_opts h) then ResCloser r else ResClose r)"
  unfolding close_fulfilled [OF assms]
  by (simp add: close_resume_def res_removeAllListeners_def p_setStatus_def Let_def)

theorem close_sets_Closed_and_closes_resource_witness:
  "p_status example_connected = Connected \<and>
   await_resource example_connected = Fulfilled (Some 7) \<and>
   p_status (fst (close example_connected)) = Closed \<and>
   status_events (fst (close example_connected)) = [Connecting, Connected, Closed] \<and>
   emitted (fst (close example_connected)) = [EvOpen] \<and>
   res_calls (fst (close example_connected)) = [ResRemoveAllListeners 7, ResClose 7] \<and>
   snd (close example_connected) = CloseDelegated (ResClose 7)"
proof -
  have a: "p_status example_connected \<noteq> Connecting" "p_status example_connected \<noteq> Closed"
    by (simp_all add: example_connected_facts)
  show ?thesis
    using close_sets_Closed_and_closes_resource [OF a example_connected_facts(2)]
    by (simp add: example_connected_facts)
qed

text \<open>
  C7, as the claim states it: on every handler a second \<open>close()\<close> after a completed one
  fails with the closed error. On a new handler, which is \<open>Connecting\<close>, the first
  \<open>close()\<close> resolves, and the second one does not fail: it waits for the attempt in flight.
\<close>

theorem second_close_counterexample:
  "snd (close (ResourceHandler None)) = CloseResolved \<and>
   snd (close (fst (close (ResourceHandler None)))) = CloseWaiting 0"
  by (simp add: handler_defs)

text \<open>
  C7, amended: on every handler that is not \<open>Connecting\<close> when \<open>close()\<close> is first called,
  a second \<open>close()\<close> right after it fails with the closed error and changes nothing, so it
  emits no event.
\<close>

theorem second_close_rejects:
  assumes "p_status h \<noteq> Connecting"
  shows "snd (close (fst (close h))) = CloseRejected (IsClosed (name (p_opts h))) \<and>
         fst (close (fst (close h))) = fst (close h)"
  using close_status_opts [OF assms] by (simp add: close_closed)

theorem second_close_rejects_witness:
  "p_status example_connected = Connected \<and>
   snd (close (fst (close example_connected))) = CloseRejected (IsClosed ''Resource'') \<and>
   fst (close (fst (close example_connected))) = fst (close example_connected)"
proof -
  have a: "p_status example_connected \<noteq> Connecting"
    by (simp add: example_connected_facts)
  show ?thesis
    using second_close_rejects [OF a] by (simp add: example_connected_facts)
qed

subsection \<open>Failures followed by a success\<close>

lemma run_append:
  "run (xs @ ys) h = (case run xs h of None \<Rightarrow> None | Some h' \<Rightarrow> run ys h')"
  by (induction xs arbitrary: h) (auto split: option.splits)

lemma ResourceHandler_fresh:
  "retry_runs (ResourceHandler opts) = [\<lparr>phase = InFlight, attemptNumber = 1, errors = []\<rparr>]"
  "p_status (ResourceHandler opts) = Connecting"
  "emitted (ResourceHandler opts) = []"
  "waiters (ResourceHandler opts) = []"
  "p_resource (ResourceHandler opts) = Attempt 0"
  by (simp_all add: ResourceHandler_def p_connect_def p_setStatus_def Let_def)

text \<open>
  While the handler stays \<open>Connecting\<close>, each failure within the budget emits one \<open>retry\<close>
  and, after the back-off, leaves the run in flight with the next attempt number.
\<close>

lemma run_failures:
  assumes "c < length (retry_runs h)" "phase (retry_runs h ! c) = InFlight"
    "p_status h = Connecting"
    "attemptNumber (retry_runs h ! c) - 1 + length es \<le> retries (p_opts h)"
    "1 \<le> attemptNumber (retry_runs h ! c)"
    "\<not> list_ex stops_retry es"
  shows "\<exists>h'. run (failures c es) h = Some h' \<and>
           c < length (retry_runs h') \<and> phase (retry_runs h' ! c) = InFlight \<and>
           p_status h' = Connecting \<and>
           attemptNumber (retry_runs h' ! c) = attemptNumber (retry_runs h ! c) + length es \<and>
           emitted h' =
             emitted h @ retry_events (retries (p_opts h)) (attemptNumber (retry_runs h ! c)) es \<and>
           p_opts h' = p_opts h \<and> waiters h' = waiters h \<and> p_resource h' = p_resource h"
  using assms
proof (induction es arbitrary: h)
  case Nil
  then show ?case by simp
next
  case (Cons e es)
  let ?k = "attemptNumber (retry_runs h ! c)"
  let ?h1 = "on_rejected c e h"
  have k: "?k \<le> retries (p_opts h)" using Cons.prems by simp
  have e: "\<not> stops_retry e" using Cons.prems by simp
  have s1: "step (FactoryRejects c e) h = Some ?h1" using Cons.prems by simp
  have h1: "c < length (retry_runs ?h1)" "phase (retry_runs ?h1 ! c) = Backoff"
    "p_status ?h1 = Connecting" "attemptNumber (retry_runs ?h1 ! c) = ?k"
    "emitted ?h1 = emitted h @ [EvRetry e ?k (retries (p_opts h) - (?k - 1))]"
    "p_opts ?h1 = p_opts h" "waiters ?h1 = waiters h" "p_resource ?h1 = p_resource h"
    using Cons.prems k e by (simp_all add: on_rejected_def emit_def Let_def)
  obtain h2 where s2: "step (BackoffElapsed c) ?h1 = Some h2"
    and h2: "c < length (retry_runs h2)" "phase (retry_runs h2 ! c) = InFlight"
      "p_status h2 = Connecting" "attemptNumber (retry_runs h2 ! c) = Suc ?k"
      "emitted h2 = emitted ?h1" "p_opts h2 = p_opts h" "waiters h2 = waiters h"
      "p_resource h2 = p_resource h"
    using h1 by (simp add: on_backoff_def)
  have "attemptNumber (retry_runs h2 ! c) - 1 + length es \<le> retries (p_opts h2)"
    "1 \<le> attemptNumber (retry_runs h2 ! c)" "\<not> list_ex stops_retry es"
    using Cons.prems h2 by simp_all
  with h2 have "\<exists>h'. run (failures c es) h2 = Some h' \<and>
           c < length (retry_runs h') \<and> phase (retry_runs h' ! c) = InFlight \<and>
           p_status h' = Connecting \<and>
           attemptNumber (retry_runs h' ! c) = attemptNumber (retry_runs h2 ! c) + length es \<and>
           emitted h' =
             emitted h2 @ retry_events (retries (p_opts h2)) (attemptNumber (retry_runs h2 ! c)) es \<and>
           p_opts h' = p_opts h2 \<and> waiters h' = waiters h2 \<and> p_resource h' = p_resource h2"
    by (intro Cons.IH)
  with h2 obtain h' where "run (failures c es) h2 = Some h'"
    "c < length (retry_runs h')" "phase (retry_runs h' ! c) = InFlight" "p_status h' = Connecting"
    "attemptNumber (retry_runs h' ! c) = Suc ?k + length es"
    "emitted h' = emitted h2 @ retry_events (retries (p_opts h)) (Suc ?k) es"
    "p_opts h' = p_opts h" "waiters h' = waiters h" "p_resource h' = p_resource h"
    by auto
  then show ?case using s1 s2 h1 h2 by simp
qed

text \<open>
  C4, as the claim states it: every sequence of failures within the budget, followed by a
  success, ends \<open>Connected\<close> with one \<open>retry\<close> per failed attempt. On a new handler with
  default options whose first attempt fails with a \<open>TypeError\<close> (one failure, within the
  budget of 10): no \<open>retry\<close> is emitted for that failed attempt, the handler is in
  \<open>Error\<close>, the factory has been called once, and neither a back-off timer nor a further
  attempt is pending, so a success cannot follow.
\<close>

theorem type_error_failure_counterexample:
  "map_option p_status
     (run [FactoryRejects 0 (TypeError ''f is not a function'')] (ResourceHandler None)) =
     Some Error \<and>
   map_option emitted
     (run [FactoryRejects 0 (TypeError ''f is not a function'')] (ResourceHandler None)) =
     Some [EvError (TypeError ''f is not a function'')] \<and>
   map_option factory_calls
     (run [FactoryRejects 0 (TypeError ''f is not a function'')] (ResourceHandler None)) =
     Some 1 \<and>
   run [FactoryRejects 0 (TypeError ''f is not a function''), BackoffElapsed 0]
     (ResourceHandler None) = None \<and>
   run (failures 0 [TypeError ''f is not a function''] @ [FactoryResolves 0 3])
     (ResourceHandler None) = None"
  by (simp add: handler_defs)

text \<open>
  C4, amended: a new handler, built with any options, whose factory fails with the errors
  \<open>es\<close>, none of them an error after which \<open>p-retry\<close> makes no further attempt (a
  \<open>TypeError\<close> that is not a network error), and then succeeds with \<open>r\<close>, the number of
  failures being within the retry budget: every stimulus of the sequence can occur, the
  handler ends \<open>Connected\<close> holding \<open>r\<close>, and what it emitted is one \<open>retry\<close> per failed
  attempt, numbered from 1, followed by one \<open>open\<close>.
\<close>

theorem failures_then_success_connects:
  assumes "length es \<le> retries (p_opts (ResourceHandler opts))"
    and "\<not> list_ex stops_retry es"
  shows "map_option p_status
           (run (failures 0 es @ [FactoryResolves 0 r]) (ResourceHandler opts)) =
           Some Connected \<and>
         map_option emitted
           (run (failures 0 es @ [FactoryResolves 0 r]) (ResourceHandler opts)) =
           Some (retry_events (retries (p_opts (ResourceHandler opts))) 1 es @ [EvOpen]) \<and>
         map_option resource
           (run (failures 0 es @ [FactoryResolves 0 r]) (ResourceHandler opts)) =
           Some (Returns r)"
proof -
  let ?h = "ResourceHandler opts"
  have "\<exists>h'. run (failures 0 es) ?h = Some h' \<and>
           0 < length (retry_runs h') \<and> phase (retry_runs h' ! 0) = InFlight \<and>
           p_status h' = Connecting \<and>
           attemptNumber (retry_runs h' ! 0) = attemptNumber (retry_runs ?h ! 0) + length es \<and>
           emitted h' =
             emitted ?h @ retry_events (retries (p_opts ?h)) (attemptNumber (retry_runs ?h ! 0)) es \<and>
           p_opts h' = p_opts ?h \<and> waiters h' = waiters ?h \<and> p_resource h' = p_resource ?h"
    by (rule run_failures) (use assms in \<open>simp_all add: ResourceHandler_fresh\<close>)
  then obtain h' where h': "run (failures 0 es) ?h = Some h'"
    "0 < length (retry_runs h')" "phase (retry_runs h' ! 0) = InFlight" "p_status h' = Connecting"
    "emitted h' = retry_events (retries (p_opts ?h)) 1 es" "waiters h' = []"
    "p_resource h' = Attempt 0"
    by (auto simp: ResourceHandler_fresh)
  let ?h2 = "settle 0 (Some r) (emit EvOpen (p_setStatus Connected (p_subscribe r h')))"
  have fin: "step (FactoryResolves 0 r) h' = Some ?h2"
    using h' by (simp add: on_resolved_def)
  have r: "run (failures 0 es @ [FactoryResolves 0 r]) ?h = Some ?h2"
    using h' fin by (simp add: run_append)
  have "p_status ?h2 = Connected"
    "emitted ?h2 = retry_events (retries (p_opts ?h)) 1 es @ [EvOpen]"
    "resource ?h2 = Returns r"
    using h'
    by (simp_all add: settle_def emit_def p_setStatus_def p_subscribe_def resource_def
        await_resource_def)
  then show ?thesis using r by simp
qed

theorem failures_then_success_connects_witness:
  "length [Failure ''x'', NetworkTypeError ''Failed to fetch''] \<le>
     retries (p_opts (ResourceHandler None)) \<and>
   list_ex stops_retry [Failure ''x'', NetworkTypeError ''Failed to fetch''] = False \<and>
   map_option p_status
     (run (failures 0 [Failure ''x'', NetworkTypeError ''Failed to fetch''] @ [FactoryResolves 0 3])
        (ResourceHandler None)) = Some Connected \<and>
   map_option emitted
     (run (failures 0 [Failure ''x'', NetworkTypeError ''Failed to fetch''] @ [FactoryResolves 0 3])
        (ResourceHandler None)) =
     Some ([EvRetry (Failure ''x'') 1 10, EvRetry (NetworkTypeError ''Failed to fetch'') 2 9] @
           [EvOpen]) \<and>
   map_option resource
     (run (failures 0 [Failure ''x'', NetworkTypeError ''Failed to fetch''] @ [FactoryResolves 0 3])
        (ResourceHandler None)) = Some (Returns 3)"
proof -
  have r: "retries (p_opts (ResourceHandler None)) = 10"
    by (simp add: handler_defs)
  have h: "length [Failure ''x'', NetworkTypeError ''Failed to fetch''] \<le>
           retries (p_opts (ResourceHandler None))"
    by (simp add: r)
  have t: "\<not> list_ex stops_retry [Failure ''x'', NetworkTypeError ''Failed to fetch'']"
    by simp
  have e: "retry_events (retries (p_opts (ResourceHandler None))) 1
             [Failure ''x'', NetworkTypeError ''Failed to fetch''] =
           [EvRetry (Failure ''x'') 1 10, EvRetry (NetworkTypeError ''Failed to fetch'') 2 9]"
    by (simp add: r numeral_2_eq_2)
  show ?thesis
    using h t failures_then_success_connects [OF h t, of 3] unfolding e by blast
qed

section \<open>Properties of the pool\<close>

lemma pool_inv_empty: "pool_inv pool_empty"
  by (simp add: pool_inv_def pool_empty_def)

lemma pool_inv_open: "pool_inv p \<Longrightarrow> pool_inv (snd (pool_open toHash s p))"
  unfolding pool_inv_def pool_open_def Let_def
  by (cases "POOL p (toHash s)") (auto simp: less_Suc_eq split: if_splits)

lemma pool_inv_close: "pool_inv p \<Longrightarrow> pool_inv (fst (pool_close toHash s p))"
  unfolding pool_inv_def pool_close_def Let_def
  by (cases "POOL p (toHash s)") (auto split: if_splits)

lemma pool_inv_apply: "pool_inv p \<Longrightarrow> pool_inv (pool_apply toHash x p)"
  by (cases x) (auto simp: pool_inv_open pool_inv_close, simp add: pool_inv_def)

lemma pool_inv_run: "pool_inv p \<Longrightarrow> pool_inv (pool_run toHash xs p)"
  by (induction xs arbitrary: p) (simp_all add: pool_inv_apply)

text \<open>Every pool built from the empty one satisfies the invariant.\<close>

lemma pool_inv_reachable: "pool_inv (pool_run toHash xs pool_empty)"
  by (simp add: pool_inv_run pool_inv_empty)

lemma example_pool_facts:
  "pool_inv example_pool"
  "POOL example_pool (example_toHash example_settings) = Some 0"
  "heap example_pool = [Connection example_settings]"
  by (simp_all add: example_pool_def pool_inv_open pool_inv_empty)
     (simp_all add: pool_open_def pool_empty_def Let_def)



text \<open>
  What \<open>close(settings)\<close> does to a pool built by its own operations. It changes nothing
  when no connection is registered under the fingerprint of the settings. When the
  connection at address \<open>c\<close> is registered, the entry is removed, \<open>close()\<close> is called on
  the handler of that connection (which becomes \<open>Closing\<close> if it was \<open>Connecting\<close>, and is
  \<open>Closed\<close> otherwise), and a following \<open>open\<close> with the same settings allocates a new
  connection, at an address beyond every connection allocated before, and registers
  it. The promise of \<open>close\<close> resolves in both cases.
\<close>

lemma pool_close_effect:
  assumes inv: "pool_inv p"
  shows "case POOL p (toHash S) of
           None \<Rightarrow> pool_close toHash S p = (p, Returns ())
         | Some c \<Rightarrow>
             POOL (fst (pool_close toHash S p)) = (POOL p)(toHash S := None) \<and>
             heap (fst (pool_close toHash S p)) =
               (heap p)[c := (heap p ! c)\<lparr>p_conn := fst (close (p_conn (heap p ! c)))\<rparr>] \<and>
             p_status (p_conn (heap (fst (pool_close toHash S p)) ! c)) =
               (if p_status (p_conn (heap p ! c)) = Connecting then Closing else Closed) \<and>
             snd (pool_close toHash S p) = Returns () \<and>
             c < length (heap p) \<and>
             fst (pool_open toHash S (fst (pool_close toHash S p))) = length (heap p) \<and>
             heap (snd (pool_open toHash S (fst (pool_close toHash S p)))) ! length (heap p) =
               Connection S \<and>
             POOL (snd (pool_open toHash S (fst (pool_close toHash S p)))) (toHash S) =
               Some (length (heap p))"
proof (cases "POOL p (toHash S)")
  case None
  then show ?thesis by (simp add: pool_close_def)
next
  case (Some c)
  have lt: "c < length (heap p)" using inv Some by (auto simp: pool_inv_def)
  show ?thesis using Some lt
    by (simp add: pool_close_def pool_open_def Connection_close_def Let_def nth_append
        close_status)
qed

text \<open>
  When the registered connection holds a broker connection \<open>r\<close>, \<open>close(settings)\<close>
  removes the listeners of \<open>r\<close> and calls \<open>r.close()\<close>.
\<close>

lemma pool_close_closes_held_resource:
  assumes "POOL p (toHash S) = Some c" and "c < length (heap p)"
    and "p_status (p_conn (heap p ! c)) \<noteq> Connecting"
    and "p_status (p_conn (heap p ! c)) \<noteq> Closed"
    and "await_resource (p_conn (heap p ! c)) = Fulfilled (Some r)"
    and "\<not> closer (p_opts (p_conn (heap p ! c)))"
  shows "res_calls (p_conn (heap (fst (pool_close toHash S p)) ! c)) =
           res_calls (p_conn (heap p ! c)) @ [ResRemoveAllListeners r, ResClose r]"
  using assms close_res_calls [OF assms(3) assms(4) assms(5)]
  by (simp add: pool_close_def Connection_close_def Let_def)

text \<open>
  C6. The claim: \<open>close(settings)\<close> is a no-op when nothing is registered under the
  fingerprint; otherwise it removes the entry and closes that connection, and a following
  \<open>open\<close> builds a fresh one. Evaluated on the empty pool with the example settings.
  Opened, then closed while the connection is still \<open>Connecting\<close>: the entry is removed
  and the handler is \<open>Closing\<close>; when the broker connection 7 is then established, the
  handler ends \<open>Closed\<close> and nothing was ever called on connection 7, which stays open; a
  following \<open>open\<close> allocates a new connection at address 1. Opened, connected and then
  closed, the same pool does call \<open>close\<close> on connection 7. On the empty pool \<open>close\<close>
  changes nothing.
\<close>

theorem pool_close_while_connecting_leaves_connection_open:
  "POOL (pool_run example_toHash [PoolOpen example_settings, PoolClose example_settings] pool_empty)
     (example_toHash example_settings) = None \<and>
   p_status (p_conn (heap (pool_run example_toHash
       [PoolOpen example_settings, PoolClose example_settings] pool_empty) ! 0)) = Closing \<and>
   p_status (p_conn (heap (pool_run example_toHash
       [PoolOpen example_settings, PoolClose example_settings,
        PoolStimulus 0 (FactoryResolves 0 7)] pool_empty) ! 0)) = Closed \<and>
   res_calls (p_conn (heap (pool_run example_toHash
       [PoolOpen example_settings, PoolClose example_settings,
        PoolStimulus 0 (FactoryResolves 0 7)] pool_empty) ! 0)) = [] \<and>
   fst (pool_open example_toHash example_settings (pool_run example_toHash
       [PoolOpen example_settings, PoolClose example_settings,
        PoolStimulus 0 (FactoryResolves 0 7)] pool_empty)) = 1 \<and>
   res_calls (p_conn (heap (pool_run example_toHash
       [PoolOpen example_settings, PoolStimulus 0 (FactoryResolves 0 7),
        PoolClose example_settings] pool_empty) ! 0)) = [ResRemoveAllListeners 7, ResClose 7] \<and>
   pool_close example_toHash example_settings pool_empty = (pool_empty, Returns ())"
  by (simp add: pool_open_def pool_close_def pool_empty_def Connection_def Connection_close_def
      Connection_step_def handler_defs)

section \<open>Properties of the sender and the subscriber\<close>

text \<open>
  C8, as the claim states it: for every payload \<open>send\<close> serializes it and publishes the
  bytes. On the example sender, which holds channel 7, with a payload for which
  \<open>JSON.stringify\<close> gives \<open>undefined\<close>: nothing is published and the call fails with the
  \<open>TypeError\<close> of \<open>Buffer.from\<close>.
\<close>

theorem send_undefined_payload_counterexample:
  "await_resource (sender_handler example_sender) = Fulfilled (Some 7) \<and>
   example_stringify None = None \<and>
   send example_stringify example_utf8 example_publish example_sender ''audit'' None None =
     ([], Rejects (TypeError ''ERR_INVALID_ARG_TYPE''))"
  by (simp add: send_def resource_def example_sender_def example_connected_facts
      example_stringify_def)

text \<open>
  C8, amended: for every routing key and options, every state of the handler and every
  payload that has a JSON text, \<open>send\<close> awaits the promise of the handler. While that
  promise is pending the call waits; when it is rejected (the handler tore down) the call
  fails with that error; when it resolved to no resource the call fails with the
  not-available error; in these cases nothing is published. When it holds the channel
  \<open>ch\<close>, \<open>send\<close> makes one call to \<open>publish\<close>, on \<open>ch\<close>, with the sender's exchange, the
  routing key, the UTF-8 bytes of the JSON text and the options, and its result is the
  boolean that \<open>publish\<close> answers (or the error it throws).
\<close>

theorem send_publishes_json_bytes:
  assumes "JSON_stringify payload = Some text"
  shows "send JSON_stringify Buffer_from publish s topic payload options =
           (case await_resource (sender_handler s) of
              Pending c \<Rightarrow> ([], Waits c)
            | Rejected e \<Rightarrow> ([], Rejects e)
            | Fulfilled None \<Rightarrow> ([], Rejects (NotAvailable (name (p_opts (sender_handler s)))))
            | Fulfilled (Some ch) \<Rightarrow>
                ([\<lparr>pub_channel = ch, pub_exchange = sender_exchange s, pub_routingKey = topic,
                   pub_content = Buffer_from text, pub_options = options\<rparr>],
                 case publish \<lparr>pub_channel = ch, pub_exchange = sender_exchange s,
                                pub_routingKey = topic, pub_content = Buffer_from text,
                                pub_options = options\<rparr> of
                   Inl e \<Rightarrow> Rejects e
                 | Inr ok \<Rightarrow> Returns ok))"
  using assms
  by (simp add: send_def resource_def Let_def split: option.splits awaited.splits)

theorem send_publishes_json_bytes_witness:
  "example_stringify (Some True) = Some ''true'' \<and>
   await_resource (sender_handler example_sender) = Fulfilled (Some 7) \<and>
   send example_stringify example_utf8 example_publish example_sender ''audit'' (Some True) None =
     ([\<lparr>pub_channel = 7, pub_exchange = ''logs'', pub_routingKey = ''audit'',
        pub_content = [116, 114, 117, 101], pub_options = None\<rparr>],
      Returns True) \<and>
   send example_stringify example_utf8 example_publish (Sender ''logs'') ''audit'' (Some True) None =
     ([], Waits 0)"
proof -
  have a: "await_resource (sender_handler example_sender) = Fulfilled (Some 7)"
    by (simp add: example_sender_def example_connected_facts)
  have b: "example_stringify (Some True) = Some ''true''"
    by (simp add: example_stringify_def)
  have c: "await_resource (sender_handler (Sender ''logs'')) = Pending 0"
    by (simp add: Sender_def await_resource_def ResourceHandler_fresh)
  show ?thesis
    using a b c
      send_publishes_json_bytes
        [where s = example_sender and JSON_stringify = example_stringify
           and payload = "Some True" and Buffer_from = example_utf8
           and publish = example_publish and topic = "''audit''" and options = None, OF b]
      send_publishes_json_bytes
        [where s = "Sender ''logs''" and JSON_stringify = example_stringify
           and payload = "Some True" and Buffer_from = example_utf8
           and publish = example_publish and topic = "''audit''" and options = None, OF b]
    by (simp add: example_sender_def example_utf8_def example_publish_def)
qed



text \<open>
  \<open>close()\<close> of the sender and of the subscriber call \<open>close()\<close> of their handler and drop
  the promise it returns.
\<close>

lemma Sender_close_calls_handler_close:
  "sender_handler (fst (Sender_close s)) = fst (close (sender_handler s))"
  by (simp add: Sender_close_def)

lemma Subscriber_close_calls_handler_close:
  "subscriber_handler (fst (Subscriber_close u)) = fst (close (subscriber_handler u))"
  by (simp add: Subscriber_close_def)

end
